theory Spec2Isabelle
  imports Main "HOL-Library.Word"
begin

section \<open>Python values\<close>

text \<open>
  The values that \<open>response.json()\<close> can produce and that the result wrapper hands
  back. Python integers are unbounded (\<open>int\<close>); a float is its IEEE 754 bit pattern;
  a string is the list of its characters; a dictionary is an association list in
  insertion order whose keys are strings (the only keys a JSON object has) and occur
  once; a tuple is the list of its components.
\<close>

datatype pyval =
    PyNone
  | PyBool bool
  | PyInt int
  | PyFloat "64 word"
  | PyStr string
  | PyList "pyval list"
  | PyTuple "pyval list"
  | PyDict "(string \<times> pyval) list"

text \<open>The exceptions that leave the two classes.\<close>

datatype exn =
    RuntimeError string
  | AttributeError
  | TypeError
  | IndexError
  | KeyError
  | JSONDecodeError

text \<open>Truth value testing, as \<open>if x:\<close> and \<open>not x\<close> do it.\<close>

fun py_truthy :: "pyval \<Rightarrow> bool" where
  "py_truthy PyNone = False"
| "py_truthy (PyBool b) = b"
| "py_truthy (PyInt i) = (i \<noteq> 0)"
| "py_truthy (PyFloat w) = (w \<noteq> 0 \<and> w \<noteq> 0x8000000000000000)"
| "py_truthy (PyStr s) = (s \<noteq> [])"
| "py_truthy (PyList xs) = (xs \<noteq> [])"
| "py_truthy (PyTuple xs) = (xs \<noteq> [])"
| "py_truthy (PyDict d) = (d \<noteq> [])"

text \<open>\<open>len(x)\<close>: defined on strings and containers, a TypeError elsewhere.\<close>

fun py_len :: "pyval \<Rightarrow> exn + int" where
  "py_len (PyStr s) = Inr (int (length s))"
| "py_len (PyList xs) = Inr (int (length xs))"
| "py_len (PyTuple xs) = Inr (int (length xs))"
| "py_len (PyDict d) = Inr (int (length d))"
| "py_len PyNone = Inl TypeError"
| "py_len (PyBool b) = Inl TypeError"
| "py_len (PyInt i) = Inl TypeError"
| "py_len (PyFloat w) = Inl TypeError"

text \<open>
  \<open>xs[i]\<close> on a sequence: a negative index counts from the end, an index outside
  \<open>-len(xs) .. len(xs) - 1\<close> raises IndexError.
\<close>

definition seq_getitem :: "'a list \<Rightarrow> int \<Rightarrow> exn + 'a" where
  "seq_getitem xs i =
     (let n = int (length xs); j = (if i < 0 then i + n else i)
      in if 0 \<le> j \<and> j < n then Inr (xs ! nat j) else Inl IndexError)"

text \<open>
  \<open>x[i]\<close> with an integer \<open>i\<close>. A dictionary read from JSON has string keys only, so
  an integer key is never found; \<open>None\<close>, booleans and numbers are not subscriptable.
\<close>

fun py_getitem :: "pyval \<Rightarrow> int \<Rightarrow> exn + pyval" where
  "py_getitem (PyList xs) i = seq_getitem xs i"
| "py_getitem (PyTuple xs) i = seq_getitem xs i"
| "py_getitem (PyStr s) i =
     (case seq_getitem s i of Inl e \<Rightarrow> Inl e | Inr c \<Rightarrow> Inr (PyStr [c]))"
| "py_getitem (PyDict d) i = Inl KeyError"
| "py_getitem PyNone i = Inl TypeError"
| "py_getitem (PyBool b) i = Inl TypeError"
| "py_getitem (PyInt k) i = Inl TypeError"
| "py_getitem (PyFloat w) i = Inl TypeError"

text \<open>
  \<open>xs[lo:hi]\<close> on a sequence of length \<open>n\<close>: a negative bound has \<open>n\<close> added, then each
  bound is clamped to \<open>0 .. n\<close>; the slice is empty when the upper bound is not above the
  lower one. An omitted upper bound is \<open>n\<close>.
\<close>

definition slice_bound :: "int \<Rightarrow> int \<Rightarrow> nat" where
  "slice_bound n i = nat (if i < 0 then max (i + n) 0 else min i n)"

definition seq_slice :: "'a list \<Rightarrow> int \<Rightarrow> int option \<Rightarrow> 'a list" where
  "seq_slice xs lo hi =
     (let n = int (length xs);
          a = slice_bound n lo;
          b = (case hi of None \<Rightarrow> length xs | Some h \<Rightarrow> slice_bound n h)
      in take (b - a) (drop a xs))"

text \<open>
  \<open>x[lo:hi]\<close>. Slicing a dictionary raises: a slice is no key of it. (Up to Python 3.11
  a slice is not hashable and the exception is a TypeError, modelled here; from 3.12 on
  it is a KeyError.)
\<close>

fun py_slice :: "pyval \<Rightarrow> int \<Rightarrow> int option \<Rightarrow> exn + pyval" where
  "py_slice (PyList xs) lo hi = Inr (PyList (seq_slice xs lo hi))"
| "py_slice (PyTuple xs) lo hi = Inr (PyTuple (seq_slice xs lo hi))"
| "py_slice (PyStr s) lo hi = Inr (PyStr (seq_slice s lo hi))"
| "py_slice (PyDict d) lo hi = Inl TypeError"
| "py_slice PyNone lo hi = Inl TypeError"
| "py_slice (PyBool b) lo hi = Inl TypeError"
| "py_slice (PyInt k) lo hi = Inl TypeError"
| "py_slice (PyFloat w) lo hi = Inl TypeError"

text \<open>\<open>x.get(key, default)\<close>: a method of dictionaries only.\<close>

fun py_get :: "pyval \<Rightarrow> string \<Rightarrow> pyval \<Rightarrow> exn + pyval" where
  "py_get (PyDict d) k dflt = Inr (case map_of d k of None \<Rightarrow> dflt | Some v \<Rightarrow> v)"
| "py_get PyNone k dflt = Inl AttributeError"
| "py_get (PyBool b) k dflt = Inl AttributeError"
| "py_get (PyInt i) k dflt = Inl AttributeError"
| "py_get (PyFloat w) k dflt = Inl AttributeError"
| "py_get (PyStr s) k dflt = Inl AttributeError"
| "py_get (PyList xs) k dflt = Inl AttributeError"
| "py_get (PyTuple xs) k dflt = Inl AttributeError"

text \<open>\<open>x.keys()\<close>: the keys of a dictionary in insertion order.\<close>

fun py_keys :: "pyval \<Rightarrow> exn + string list" where
  "py_keys (PyDict d) = Inr (map fst d)"
| "py_keys PyNone = Inl AttributeError"
| "py_keys (PyBool b) = Inl AttributeError"
| "py_keys (PyInt i) = Inl AttributeError"
| "py_keys (PyFloat w) = Inl AttributeError"
| "py_keys (PyStr s) = Inl AttributeError"
| "py_keys (PyList xs) = Inl AttributeError"
| "py_keys (PyTuple xs) = Inl AttributeError"

text \<open>\<open>iter(x)\<close>, as the finite sequence of the items it yields.\<close>

fun py_iter :: "pyval \<Rightarrow> exn + pyval list" where
  "py_iter (PyList xs) = Inr xs"
| "py_iter (PyTuple xs) = Inr xs"
| "py_iter (PyStr s) = Inr (map (\<lambda>c. PyStr [c]) s)"
| "py_iter (PyDict d) = Inr (map (\<lambda>kv. PyStr (fst kv)) d)"
| "py_iter PyNone = Inl TypeError"
| "py_iter (PyBool b) = Inl TypeError"
| "py_iter (PyInt i) = Inl TypeError"
| "py_iter (PyFloat w) = Inl TypeError"

text \<open>
  \<open>str(x)\<close> inside an f-string: a string stands for itself; the rendering of every
  other value is left to the interpreter, \<open>other\<close>.
\<close>

fun py_str :: "(pyval \<Rightarrow> string) \<Rightarrow> pyval \<Rightarrow> string" where
  "py_str other (PyStr s) = s"
| "py_str other v = other v"


section \<open>CloudflareD1Result\<close>

text \<open>
  The result wrapper. Its attributes hold whatever the constructor was given; only
  \<open>_index\<close> (here \<open>index\<close>) is ever assigned afterwards.
\<close>

record d1_result =
  results :: pyval
  meta :: pyval
  success :: pyval
  index :: int

definition CloudflareD1Result :: "pyval \<Rightarrow> pyval \<Rightarrow> pyval \<Rightarrow> d1_result" where
  "CloudflareD1Result rs m s = \<lparr>results = rs, meta = m, success = s, index = 0\<rparr>"

text \<open>
  Every method returns what the call yields (a value or the exception raised) and the
  object afterwards. An exception leaves the object as it was when it was raised.
\<close>

definition fetchone :: "d1_result \<Rightarrow> (exn + pyval) \<times> d1_result" where
  "fetchone self =
     (case py_len (results self) of
        Inl e \<Rightarrow> (Inl e, self)
      | Inr n \<Rightarrow>
          if index self < n then
            (case py_getitem (results self) (index self) of
               Inl e \<Rightarrow> (Inl e, self)
             | Inr row \<Rightarrow> (Inr row, self\<lparr>index := index self + 1\<rparr>))
          else (Inr PyNone, self))"

definition fetchmany :: "d1_result \<Rightarrow> int option \<Rightarrow> (exn + pyval) \<times> d1_result" where
  "fetchmany self size' =
     (case (case size' of
              None \<Rightarrow> (case py_len (results self) of
                          Inl e \<Rightarrow> Inl e
                        | Inr n \<Rightarrow> Inr (n - index self))
            | Some s \<Rightarrow> Inr s) of
        Inl e \<Rightarrow> (Inl e, self)
      | Inr sz \<Rightarrow>
          (let start = index self in
           case py_len (results self) of
             Inl e \<Rightarrow> (Inl e, self)
           | Inr n \<Rightarrow>
               (let end' = min (start + sz) n in
                case py_slice (results self) start (Some end') of
                  Inl e \<Rightarrow> (Inl e, self)
                | Inr rows \<Rightarrow> (Inr rows, self\<lparr>index := end'\<rparr>))))"

definition fetchall :: "d1_result \<Rightarrow> (exn + pyval) \<times> d1_result" where
  "fetchall self =
     (case py_slice (results self) (index self) None of
        Inl e \<Rightarrow> (Inl e, self)
      | Inr rows \<Rightarrow>
          (case py_len (results self) of
             Inl e \<Rightarrow> (Inl e, self)
           | Inr n \<Rightarrow> (Inr rows, self\<lparr>index := n\<rparr>)))"

text \<open>\<open>__iter__\<close>: the rows the returned iterator yields.\<close>

definition iter :: "d1_result \<Rightarrow> (exn + pyval list) \<times> d1_result" where
  "iter self = (py_iter (results self), self)"

text \<open>\<open>__getitem__\<close>.\<close>

definition getitem :: "d1_result \<Rightarrow> int \<Rightarrow> (exn + pyval) \<times> d1_result" where
  "getitem self i = (py_getitem (results self) i, self)"

text \<open>
  The properties. In \<open>rowcount\<close> the default \<open>len(self.results)\<close> is an argument of
  \<open>get\<close>, so it is evaluated whether or not the key is present.
\<close>

definition rowcount :: "d1_result \<Rightarrow> exn + pyval" where
  "rowcount self =
     (case py_get (meta self) ''changes'' PyNone of
        Inl e \<Rightarrow> Inl e
      | Inr _ \<Rightarrow>
          (case py_len (results self) of
             Inl e \<Rightarrow> Inl e
           | Inr n \<Rightarrow> py_get (meta self) ''changes'' (PyInt n)))"

definition lastrowid :: "d1_result \<Rightarrow> exn + pyval" where
  "lastrowid self = py_get (meta self) ''last_row_id'' PyNone"

definition description :: "d1_result \<Rightarrow> exn + pyval" where
  "description self =
     (if py_truthy (results self) then
        (case py_getitem (results self) 0 of
           Inl e \<Rightarrow> Inl e
         | Inr first_row \<Rightarrow>
             (case py_keys first_row of
                Inl e \<Rightarrow> Inl e
              | Inr names \<Rightarrow>
                  Inr (PyList (map (\<lambda>name. PyTuple [PyStr name, PyNone, PyNone, PyNone,
                                                     PyNone, PyNone, PyNone]) names))))
      else Inr PyNone)"


section \<open>The HTTP client\<close>

text \<open>
  The \<open>httpx\<close> client is outside this module. What is recorded of it is the sequence of
  calls made on it; what it answers to a \<open>post\<close> may depend on that sequence.
\<close>

datatype http_event = Post string pyval | ClientClose

record response =
  status_code :: int
  resp_text :: string
  resp_json :: "pyval option"

text \<open>
  A \<open>post\<close> raises \<open>httpx.RequestError\<close> (carried here: its \<open>str\<close>), raises something
  else, or returns a response. \<open>resp_json\<close> is what \<open>response.json()\<close> returns, \<open>None\<close>
  when the body does not decode.
\<close>

datatype http_outcome = RequestError string | OtherError exn | Response response

text \<open>
  What a connection runs in: \<open>post\<close>, the client's answer to a \<open>post\<close> of a JSON
  payload to a URL after the calls made on it so far, and \<open>str_of\<close>, the interpreter's
  rendering of a value that is not a string (see \<open>py_str\<close>).
\<close>

record runtime =
  post :: "http_event list \<Rightarrow> string \<Rightarrow> pyval \<Rightarrow> http_outcome"
  str_of :: "pyval \<Rightarrow> string"

text \<open>
  \<open>response.raise_for_status()\<close> raises \<open>httpx.HTTPStatusError\<close> unless the status is
  2xx (\<open>response.is_success\<close>).
\<close>

definition is_success :: "response \<Rightarrow> bool" where
  "is_success r = (200 \<le> status_code r \<and> status_code r \<le> 299)"


section \<open>CloudflareD1Connection\<close>

text \<open>The attributes of a connection; \<open>closed\<close> and \<open>in_transaction\<close> are \<open>_closed\<close> and
  \<open>_in_transaction\<close>. The client it holds is the one of the runtime.\<close>

record d1_connection =
  account_id :: string
  database_id :: string
  api_token :: string
  base_url :: string
  closed :: bool
  in_transaction :: bool

definition CloudflareD1Connection :: "string \<Rightarrow> string \<Rightarrow> string \<Rightarrow> d1_connection" where
  "CloudflareD1Connection account database token =
     \<lparr>account_id = account, database_id = database, api_token = token,
      base_url = ''https://api.cloudflare.com/client/v4/accounts/'' @ account
                 @ ''/d1/database/'' @ database,
      closed = False, in_transaction = False\<rparr>"

definition close :: "d1_connection \<Rightarrow> http_event list \<Rightarrow> d1_connection \<times> http_event list" where
  "close self log =
     (if \<not> closed self then (self\<lparr>closed := True\<rparr>, log @ [ClientClose]) else (self, log))"

text \<open>
  \<open>execute\<close> returns the result wrapper or the exception raised, and the client's call
  sequence afterwards. The two \<open>except\<close> clauses catch \<open>httpx\<close> exceptions only, so the
  RuntimeErrors raised inside the \<open>try\<close> and every AttributeError, TypeError, IndexError
  and KeyError of the unwrapping leave \<open>execute\<close> as they are.
\<close>

definition execute ::
  "runtime \<Rightarrow> d1_connection \<Rightarrow> http_event list \<Rightarrow> string \<Rightarrow> pyval list option
     \<Rightarrow> (exn + d1_result) \<times> http_event list" where
  "execute env self log query parameters =
     (if closed self then (Inl (RuntimeError ''Connection is closed''), log)
      else
        (let payload = PyDict ((''sql'', PyStr query) #
                         (case parameters of
                            None \<Rightarrow> []
                          | Some ps \<Rightarrow> if ps \<noteq> [] then [(''params'', PyList ps)] else []));
             url = base_url self @ ''/query''
         in
         ((case post env log url payload of
             RequestError e \<Rightarrow> Inl (RuntimeError (''HTTP request failed: '' @ e))
           | OtherError e \<Rightarrow> Inl e
           | Response r \<Rightarrow>
               if \<not> is_success r then
                 Inl (RuntimeError (''HTTP error '' @ py_str (str_of env) (PyInt (status_code r))
                                     @ '': '' @ resp_text r))
               else
                 (case resp_json r of
                    None \<Rightarrow> Inl JSONDecodeError
                  | Some data \<Rightarrow>
                 (case py_get data ''success'' (PyBool False) of
                    Inl e \<Rightarrow> Inl e
                  | Inr ok \<Rightarrow>
                 if \<not> py_truthy ok then
                   (case py_get data ''errors'' (PyList []) of
                      Inl e \<Rightarrow> Inl e
                    | Inr errors \<Rightarrow>
                        if py_truthy errors then
                          (case py_getitem errors 0 of
                             Inl e \<Rightarrow> Inl e
                           | Inr err \<Rightarrow>
                          (case py_get err ''message'' (PyStr ''Unknown error'') of
                             Inl e \<Rightarrow> Inl e
                           | Inr error_msg \<Rightarrow>
                               Inl (RuntimeError (''D1 API error: ''
                                                   @ py_str (str_of env) error_msg))))
                        else Inl (RuntimeError ''D1 API request failed''))
                 else
                   (case py_get data ''result'' (PyList []) of
                      Inl e \<Rightarrow> Inl e
                    | Inr result_data \<Rightarrow>
                        if py_truthy result_data then
                          (case py_getitem result_data 0 of
                             Inl e \<Rightarrow> Inl e
                           | Inr query_result \<Rightarrow>
                          (case py_get query_result ''results'' (PyList []) of
                             Inl e \<Rightarrow> Inl e
                           | Inr rs \<Rightarrow>
                          (case py_get query_result ''meta'' (PyDict []) of
                             Inl e \<Rightarrow> Inl e
                           | Inr m \<Rightarrow>
                          (case py_get query_result ''success'' (PyBool True) of
                             Inl e \<Rightarrow> Inl e
                           | Inr s \<Rightarrow> Inr (CloudflareD1Result rs m s)))))
                        else Inr (CloudflareD1Result (PyList []) (PyDict []) (PyBool True)))))),
           log @ [Post url payload])))"

text \<open>
  \<open>execute_many\<close>: one \<open>execute\<close> per parameter sequence, in order; the first exception
  ends the loop and is the outcome.
\<close>

fun execute_many ::
  "runtime \<Rightarrow> d1_connection \<Rightarrow> http_event list \<Rightarrow> string \<Rightarrow> pyval list list
     \<Rightarrow> (exn + d1_result list) \<times> http_event list" where
  "execute_many env self log query [] = (Inr [], log)"
| "execute_many env self log query (parameters # rest) =
     (case execute env self log query (Some parameters) of
        (Inl e, log') \<Rightarrow> (Inl e, log')
      | (Inr r, log') \<Rightarrow>
          (case execute_many env self log' query rest of
             (Inl e, log'') \<Rightarrow> (Inl e, log'')
           | (Inr rs, log'') \<Rightarrow> (Inr (r # rs), log'')))"

definition begin_transaction :: "d1_connection \<Rightarrow> d1_connection" where
  "begin_transaction self = self\<lparr>in_transaction := True\<rparr>"

definition commit_transaction :: "d1_connection \<Rightarrow> d1_connection" where
  "commit_transaction self = self\<lparr>in_transaction := False\<rparr>"

definition rollback_transaction :: "d1_connection \<Rightarrow> d1_connection" where
  "rollback_transaction self = self\<lparr>in_transaction := False\<rparr>"

definition get_server_version :: "d1_connection \<Rightarrow> string" where
  "get_server_version self = ''D1-REST-API''"


section \<open>Sequences of calls\<close>

text \<open>
  A caller's session with one connection: any of its methods, in any order. \<open>call\<close>
  dispatches one of them; \<open>calls\<close> runs a sequence, going on after a call that raised,
  as a caller that catches the exception does.
\<close>

datatype conn_call =
    Close
  | Execute string "pyval list option"
  | ExecuteMany string "pyval list list"
  | BeginTransaction
  | CommitTransaction
  | RollbackTransaction
  | GetServerVersion

datatype ret = RetNone | RetResult d1_result | RetResults "d1_result list" | RetStr string

fun call ::
  "runtime \<Rightarrow> conn_call \<Rightarrow> d1_connection \<times> http_event list
     \<Rightarrow> (exn + ret) \<times> d1_connection \<times> http_event list" where
  "call env Close (self, log) = (Inr RetNone, close self log)"
| "call env (Execute query parameters) (self, log) =
     (case execute env self log query parameters of
        (Inl e, log') \<Rightarrow> (Inl e, self, log')
      | (Inr r, log') \<Rightarrow> (Inr (RetResult r), self, log'))"
| "call env (ExecuteMany query parameters_list) (self, log) =
     (case execute_many env self log query parameters_list of
        (Inl e, log') \<Rightarrow> (Inl e, self, log')
      | (Inr rs, log') \<Rightarrow> (Inr (RetResults rs), self, log'))"
| "call env BeginTransaction (self, log) = (Inr RetNone, begin_transaction self, log)"
| "call env CommitTransaction (self, log) = (Inr RetNone, commit_transaction self, log)"
| "call env RollbackTransaction (self, log) = (Inr RetNone, rollback_transaction self, log)"
| "call env GetServerVersion (self, log) = (Inr (RetStr (get_server_version self)), self, log)"

fun calls ::
  "runtime \<Rightarrow> conn_call list \<Rightarrow> d1_connection \<times> http_event list
     \<Rightarrow> d1_connection \<times> http_event list" where
  "calls env [] st = st"
| "calls env (c # cs) st = calls env cs (snd (call env c st))"

text \<open>The same for a result wrapper: its methods, and a sequence of them.\<close>

datatype cursor_op = Fetchone | Fetchmany "int option" | Fetchall | Iter | Getitem int

fun cursor_call :: "cursor_op \<Rightarrow> d1_result \<Rightarrow> (exn + pyval) \<times> d1_result" where
  "cursor_call Fetchone self = fetchone self"
| "cursor_call (Fetchmany size') self = fetchmany self size'"
| "cursor_call Fetchall self = fetchall self"
| "cursor_call Iter self =
     (case iter self of (Inl e, self') \<Rightarrow> (Inl e, self') | (Inr xs, self') \<Rightarrow> (Inr (PyList xs), self'))"
| "cursor_call (Getitem i) self = getitem self i"

fun cursor_calls :: "cursor_op list \<Rightarrow> d1_result \<Rightarrow> d1_result" where
  "cursor_calls [] self = self"
| "cursor_calls (c # cs) self = cursor_calls cs (snd (cursor_call c self))"

text \<open>The calls on a result wrapper that pass no negative size to \<open>fetchmany\<close>.\<close>

fun nonneg_size :: "cursor_op \<Rightarrow> bool" where
  "nonneg_size (Fetchmany (Some k)) = (0 \<le> k)"
| "nonneg_size c = True"

text \<open>A sequence of \<open>fetchmany(k)\<close> calls: the slices returned, in order, and the object afterwards.\<close>

fun fetchmany_seq :: "d1_result \<Rightarrow> int list \<Rightarrow> (exn + pyval) list \<times> d1_result" where
  "fetchmany_seq self [] = ([], self)"
| "fetchmany_seq self (k # ks) =
     (case fetchmany self (Some k) of
        (out, self') \<Rightarrow> (case fetchmany_seq self' ks of (outs, self'') \<Rightarrow> (out # outs, self'')))"


section \<open>Sample values\<close>

text \<open>Two rows, a result wrapper over them, used where a property is run on an input.\<close>

definition example_rows :: "pyval list" where
  "example_rows = [PyDict [(''id'', PyInt 1), (''name'', PyStr ''a'')],
                   PyDict [(''id'', PyInt 2), (''name'', PyStr ''b'')]]"

definition example_result :: d1_result where
  "example_result = CloudflareD1Result (PyList example_rows) (PyDict []) (PyBool True)"

text \<open>
  An open connection, and an interpreter and client whose every \<open>post\<close> is answered
  with status 200 and the given JSON body.
\<close>

definition example_conn :: d1_connection where
  "example_conn = CloudflareD1Connection ''account'' ''database'' ''token''"

definition example_runtime :: "pyval \<Rightarrow> runtime" where
  "example_runtime body =
     \<lparr>post = (\<lambda>log url payload.
                Response \<lparr>status_code = 200, resp_text = [], resp_json = Some body\<rparr>),
      str_of = (\<lambda>v. [])\<rparr>"

text \<open>
  Four JSON bodies: a successful envelope with one result block (its \<open>success\<close> field
  omitted), \<open>{"success": true, "result": []}\<close>,
  \<open>{"success": false, "errors": [{"message": "syntax error"}]}\<close> and
  \<open>{"success": false, "errors": []}\<close>.
\<close>

definition success_body :: pyval where
  "success_body =
     PyDict [(''success'', PyBool True),
             (''result'', PyList [PyDict [(''results'', PyList example_rows),
                                          (''meta'', PyDict [(''changes'', PyInt 2),
                                                             (''last_row_id'', PyInt 2)])]])]"

definition empty_body :: pyval where
  "empty_body = PyDict [(''success'', PyBool True), (''result'', PyList [])]"

definition error_body :: pyval where
  "error_body =
     PyDict [(''success'', PyBool False),
             (''errors'', PyList [PyDict [(''message'', PyStr ''syntax error'')]])]"

definition failed_body :: pyval where
  "failed_body = PyDict [(''success'', PyBool False), (''errors'', PyList [])]"


section \<open>The fetch methods on a list of rows\<close>

text \<open>
  What \<open>fetchone\<close>, \<open>fetchmany\<close> and \<open>fetchall\<close> compute when \<open>results\<close> is a list and
  \<open>_index\<close> lies inside it.
\<close>

lemma slice_bound_inside: "0 \<le> i \<Longrightarrow> i \<le> n \<Longrightarrow> slice_bound n i = nat i"
  by (simp add: slice_bound_def)

lemma seq_slice_take_drop:
  assumes "0 \<le> i" "i \<le> int (length R)" "0 \<le> k"
  shows "seq_slice R i (Some (min (i + k) (int (length R)))) = take (nat k) (drop (nat i) R)"
proof -
  let ?n = "int (length R)"
  let ?e = "min (i + k) ?n"
  have e: "0 \<le> ?e" "?e \<le> ?n" using assms by auto
  have "seq_slice R i (Some ?e) = take (nat ?e - nat i) (drop (nat i) R)"
    using assms(1,2) e by (simp add: seq_slice_def slice_bound_inside Let_def)
  also have "\<dots> = take (nat k) (drop (nat i) R)"
  proof (cases "i + k \<le> ?n")
    case True
    then have "nat ?e - nat i = nat k" using assms by (simp add: min_def) 
    then show ?thesis by simp
  next
    case False
    then have "nat ?e - nat i = length (drop (nat i) R)" using assms by (simp add: min_def)
    moreover from False have "length (drop (nat i) R) \<le> nat k" using assms by simp
    ultimately show ?thesis by simp
  qed
  finally show ?thesis .
qed

lemma fetchmany_list:
  assumes "results self = PyList R" "0 \<le> index self" "index self \<le> int (length R)" "0 \<le> k"
  shows "fetchmany self (Some k) =
           (Inr (PyList (take (nat k) (drop (nat (index self)) R))),
            self\<lparr>index := min (index self + k) (int (length R))\<rparr>)"
  using assms(1) seq_slice_take_drop [OF assms(2-4)] by (simp add: fetchmany_def Let_def)


lemma fetchmany_default_list:
  assumes "results self = PyList R" "0 \<le> index self" "index self \<le> int (length R)"
  shows "fetchmany self None =
           (Inr (PyList (drop (nat (index self)) R)), self\<lparr>index := int (length R)\<rparr>)"
proof -
  have k: "0 \<le> int (length R) - index self" using assms(3) by simp
  have "seq_slice R (index self) (Some (min (index self + (int (length R) - index self)) (int (length R))))
          = take (nat (int (length R) - index self)) (drop (nat (index self)) R)"
    by (rule seq_slice_take_drop [OF assms(2,3) k])
  moreover have "nat (int (length R) - index self) = length (drop (nat (index self)) R)"
    using assms(2,3) by simp
  ultimately show ?thesis using assms(1) by (simp add: fetchmany_def Let_def)
qed

lemma fetchone_list:
  assumes "results self = PyList R" "0 \<le> index self"
  shows "fetchone self =
           (if index self < int (length R)
            then (Inr (R ! nat (index self)), self\<lparr>index := index self + 1\<rparr>)
            else (Inr PyNone, self))"
  using assms by (simp add: fetchone_def seq_getitem_def Let_def)

lemma fetchall_list:
  assumes "results self = PyList R" "0 \<le> index self"
  shows "fetchall self =
           (Inr (PyList (drop (nat (index self)) R)), self\<lparr>index := int (length R)\<rparr>)"
  using assms by (simp add: fetchall_def seq_slice_def slice_bound_def Let_def min_def)

lemma take_drop_append_min:
  fixes R :: "'a list"
  shows "take a (drop i R) @ take b (drop (min (i + a) (length R)) R) = take (a + b) (drop i R)"
proof (cases "i + a \<le> length R")
  case True
  then have "drop (min (i + a) (length R)) R = drop a (drop i R)"
    by (simp add: min_def add.commute)
  then show ?thesis by (simp add: take_add)
next
  case False
  then show ?thesis by (simp add: min_def)
qed

lemma fetchmany_seq_list:
  assumes "results self = PyList R" "0 \<le> index self" "index self \<le> int (length R)"
    and "\<forall>k\<in>set ks. 0 \<le> k"
  shows "\<exists>slices.
           fst (fetchmany_seq self ks) = map (\<lambda>rows. Inr (PyList rows)) slices
         \<and> concat slices = take (nat (sum_list ks)) (drop (nat (index self)) R)
         \<and> snd (fetchmany_seq self ks)
             = self\<lparr>index := min (index self + sum_list ks) (int (length R))\<rparr>"
  using assms
proof (induction ks arbitrary: self)
  case Nil
  have "fst (fetchmany_seq self []) = map (\<lambda>rows. Inr (PyList rows)) []
        \<and> concat [] = take (nat (sum_list [])) (drop (nat (index self)) R)
        \<and> snd (fetchmany_seq self []) = self\<lparr>index := min (index self + sum_list []) (int (length R))\<rparr>"
    using Nil.prems(2,3) by (simp add: min_def)
  then show ?case by blast
next
  case (Cons k ks)
  let ?i = "index self"
  let ?n = "int (length R)"
  let ?self' = "self\<lparr>index := min (?i + k) ?n\<rparr>"
  have k: "0 \<le> k" and ks: "\<forall>k\<in>set ks. 0 \<le> k" using Cons.prems(4) by simp_all
  have S: "0 \<le> sum_list ks" using ks by (simp add: sum_list_nonneg)
  have step: "fetchmany self (Some k) = (Inr (PyList (take (nat k) (drop (nat ?i) R))), ?self')"
    by (rule fetchmany_list [OF Cons.prems(1-3) k])
  have r': "results ?self' = PyList R" using Cons.prems(1) by simp
  have lo': "0 \<le> index ?self'" using Cons.prems(2) k by simp
  have hi': "index ?self' \<le> ?n" by simp
  from Cons.IH [OF r' lo' hi' ks] obtain slices where
    out: "fst (fetchmany_seq ?self' ks) = map (\<lambda>rows. Inr (PyList rows)) slices"
    and cat: "concat slices = take (nat (sum_list ks)) (drop (nat (index ?self')) R)"
    and st: "snd (fetchmany_seq ?self' ks)
               = ?self'\<lparr>index := min (index ?self' + sum_list ks) ?n\<rparr>"
    by blast
  let ?slices = "take (nat k) (drop (nat ?i) R) # slices"
  have a: "fst (fetchmany_seq self (k # ks)) = map (\<lambda>rows. Inr (PyList rows)) ?slices"
    using step out by (simp add: split_beta)
  have idx: "nat (index ?self') = min (nat ?i + nat k) (length R)"
    using Cons.prems(2) k by (simp add: min_def) linarith
  have "concat ?slices
          = take (nat k) (drop (nat ?i) R) @ take (nat (sum_list ks)) (drop (min (nat ?i + nat k) (length R)) R)"
    using cat idx by simp
  also have "\<dots> = take (nat k + nat (sum_list ks)) (drop (nat ?i) R)"
    by (rule take_drop_append_min)
  also have "nat k + nat (sum_list ks) = nat (sum_list (k # ks))"
    using k S by (simp add: nat_add_distrib)
  finally have b: "concat ?slices = take (nat (sum_list (k # ks))) (drop (nat ?i) R)" .
  have "min (min (?i + k) ?n + sum_list ks) ?n = min (?i + sum_list (k # ks)) ?n"
    using S by (simp add: min_def)
  then have c: "snd (fetchmany_seq self (k # ks))
                  = self\<lparr>index := min (?i + sum_list (k # ks)) ?n\<rparr>"
    using step st by (simp add: split_beta)
  from a b c show ?case by blast
qed


section \<open>Properties of the result wrapper\<close>

text \<open>
  Claim C5. On a freshly constructed result wrapper over the rows \<open>R\<close>, \<open>fetchall()\<close>
  returns exactly \<open>R\<close>, in order, and leaves the position at \<open>len(R)\<close>. More generally,
  at any position \<open>0 \<le> _index\<close>, \<open>fetchall()\<close> returns the rows from that position
  onward and sets the position to \<open>len(rows)\<close>.
\<close>

theorem fetchall_returns_remaining_rows:
  "fetchall (CloudflareD1Result (PyList R) m s)
     = (Inr (PyList R), (CloudflareD1Result (PyList R) m s)\<lparr>index := int (length R)\<rparr>)
   \<and> (results self = PyList rows \<and> 0 \<le> index self \<longrightarrow>
        fetchall self
          = (Inr (PyList (drop (nat (index self)) rows)), self\<lparr>index := int (length rows)\<rparr>))"
proof -
  have "results (CloudflareD1Result (PyList R) m s) = PyList R"
       "0 \<le> index (CloudflareD1Result (PyList R) m s)"
       "index (CloudflareD1Result (PyList R) m s) = 0"
    by (simp_all add: CloudflareD1Result_def)
  then show ?thesis using fetchall_list [of _ R] fetchall_list [of self rows] by simp
qed

theorem fetchall_returns_remaining_rows_witness:
  "results (snd (fetchone example_result)) = PyList example_rows
   \<and> 0 \<le> index (snd (fetchone example_result))
   \<and> index (snd (fetchone example_result)) = 1
   \<and> fetchall (snd (fetchone example_result))
       = (Inr (PyList (drop 1 example_rows)),
          (snd (fetchone example_result))\<lparr>index := int (length example_rows)\<rparr>)"
proof -
  have h: "results (snd (fetchone example_result)) = PyList example_rows
           \<and> 0 \<le> index (snd (fetchone example_result))"
          "index (snd (fetchone example_result)) = 1"
    by (simp_all add: example_result_def example_rows_def CloudflareD1Result_def fetchone_def
          seq_getitem_def)
  show ?thesis
    using h fetchall_returns_remaining_rows
            [of example_rows "PyDict []" "PyBool True" "snd (fetchone example_result)" example_rows]
    by simp
qed

text \<open>
  Claim C6. On a fresh result wrapper over \<open>R\<close>, any sequence of calls
  \<open>fetchmany(k\<^sub>1), \<dots>, fetchmany(k\<^sub>n)\<close> with every \<open>k\<^sub>i\<close> positive and
  \<open>k\<^sub>1 + \<dots> + k\<^sub>n = len(R)\<close> returns lists (no call raises) whose concatenation,
  in call order, is \<open>R\<close>.
\<close>

theorem fetchmany_slices_concat:
  assumes "\<forall>k\<in>set ks. 0 < k" and "sum_list ks = int (length R)"
  shows "\<exists>slices.
           fst (fetchmany_seq (CloudflareD1Result (PyList R) m s) ks)
             = map (\<lambda>rows. Inr (PyList rows)) slices
         \<and> concat slices = R"
proof -
  let ?c = "CloudflareD1Result (PyList R) m s"
  have ks: "\<forall>k\<in>set ks. 0 \<le> k" using assms(1) by auto
  have "results ?c = PyList R" "0 \<le> index ?c" "index ?c \<le> int (length R)"
    by (simp_all add: CloudflareD1Result_def)
  from fetchmany_seq_list [OF this ks] obtain slices where
    "fst (fetchmany_seq ?c ks) = map (\<lambda>rows. Inr (PyList rows)) slices"
    "concat slices = take (nat (sum_list ks)) (drop (nat (index ?c)) R)"
    by blast
  moreover have "take (nat (sum_list ks)) (drop (nat (index ?c)) R) = R"
    using assms(2) by (simp add: CloudflareD1Result_def)
  ultimately show ?thesis by auto
qed

theorem fetchmany_slices_concat_witness:
  "sum_list [1, 1] = int (length example_rows)
   \<and> (\<exists>slices.
         fst (fetchmany_seq (CloudflareD1Result (PyList example_rows) (PyDict []) (PyBool True)) [1, 1])
           = map (\<lambda>rows. Inr (PyList rows)) slices
       \<and> concat slices = example_rows)"
proof -
  have h1: "\<forall>k\<in>set [1, 1 :: int]. 0 < k" by simp
  have h2: "sum_list [1, 1] = int (length example_rows)" by (simp add: example_rows_def)
  show ?thesis
    using h2 fetchmany_slices_concat [OF h1 h2, of "PyDict []" "PyBool True"] by blast
qed

text \<open>
  Claim C10. On a result wrapper over a non-empty list of rows \<open>R\<close>, indexed access with
  \<open>-len(R) \<le> i < 0\<close> returns the row \<open>R[len(R) + i]\<close>, counted from the end, raises
  nothing, and leaves the object, its position included, as it was.
\<close>

theorem getitem_negative_index:
  assumes "results self = PyList R" and "R \<noteq> []" and "- int (length R) \<le> i" and "i < 0"
  shows "getitem self i = (Inr (R ! nat (int (length R) + i)), self)"
  using assms by (simp add: getitem_def seq_getitem_def Let_def add.commute)

theorem getitem_negative_index_witness:
  "results example_result = PyList example_rows \<and> example_rows \<noteq> []
   \<and> - int (length example_rows) \<le> - 1 \<and> (- 1 :: int) < 0
   \<and> getitem example_result (- 1)
       = (Inr (PyDict [(''id'', PyInt 2), (''name'', PyStr ''b'')]), example_result)"
proof -
  have h: "results example_result = PyList example_rows" "example_rows \<noteq> []"
    "- int (length example_rows) \<le> - 1" "(- 1 :: int) < 0"
    by (simp_all add: example_result_def example_rows_def CloudflareD1Result_def)
  have "example_rows ! nat (int (length example_rows) + - 1)
          = PyDict [(''id'', PyInt 2), (''name'', PyStr ''b'')]"
    by (simp add: example_rows_def)
  then show ?thesis using h getitem_negative_index [OF h] by simp
qed


subsection \<open>The position\<close>

text \<open>
  As long as no \<open>fetchmany\<close> is given a negative size, the position stays within
  \<open>0 .. len(rows)\<close> and never decreases, and each fetch advances it by the number of rows
  it returns.
\<close>

lemma cursor_call_position:
  assumes "results self = PyList R" "0 \<le> index self" "index self \<le> int (length R)"
    and "nonneg_size c"
  shows "results (snd (cursor_call c self)) = PyList R
       \<and> index self \<le> index (snd (cursor_call c self))
       \<and> index (snd (cursor_call c self)) \<le> int (length R)"
proof (cases c)
  case Fetchone
  then show ?thesis using assms by (simp add: fetchone_list)
next
  case (Fetchmany sz)
  show ?thesis
  proof (cases sz)
    case None
    with Fetchmany show ?thesis
      using assms(1,3) fetchmany_default_list [OF assms(1-3)] by simp
  next
    case (Some k)
    with Fetchmany assms(4) have k: "0 \<le> k" by simp
    from Fetchmany Some show ?thesis
      using assms(1,3) fetchmany_list [OF assms(1-3) k] k by simp
  qed
next
  case Fetchall
  then show ?thesis using assms(1,3) fetchall_list [OF assms(1,2)] by simp
next
  case Iter
  then show ?thesis using assms by (simp add: iter_def)
next
  case (Getitem i)
  then show ?thesis using assms by (simp add: getitem_def)
qed

lemma cursor_calls_position:
  assumes "results self = PyList R" "0 \<le> index self" "index self \<le> int (length R)"
    and "list_all nonneg_size cs"
  shows "results (cursor_calls cs self) = PyList R
       \<and> index self \<le> index (cursor_calls cs self)
       \<and> index (cursor_calls cs self) \<le> int (length R)"
  using assms
proof (induction cs arbitrary: self)
  case Nil
  then show ?case by simp
next
  case (Cons c cs)
  from Cons.prems(4) have c: "nonneg_size c" and cs: "list_all nonneg_size cs" by simp_all
  let ?self' = "snd (cursor_call c self)"
  from cursor_call_position [OF Cons.prems(1-3) c]
  have 1: "results ?self' = PyList R" and 2: "index self \<le> index ?self'"
    and 3: "index ?self' \<le> int (length R)" by simp_all
  from 2 Cons.prems(2) have 4: "0 \<le> index ?self'" by simp
  from Cons.IH [OF 1 4 3 cs] 2 show ?case by simp
qed

lemma fetch_advances_by_rows_returned:
  assumes "results self = PyList R" "0 \<le> index self" "index self \<le> int (length R)"
  shows "index (snd (fetchone self))
           = index self + (if index self < int (length R) then 1 else 0)"
    and "0 \<le> k \<Longrightarrow> \<exists>rows. fst (fetchmany self (Some k)) = Inr (PyList rows)
           \<and> index (snd (fetchmany self (Some k))) = index self + int (length rows)"
    and "\<exists>rows. fst (fetchmany self None) = Inr (PyList rows)
           \<and> index (snd (fetchmany self None)) = index self + int (length rows)"
    and "\<exists>rows. fst (fetchall self) = Inr (PyList rows)
           \<and> index (snd (fetchall self)) = index self + int (length rows)"
proof -
  show "index (snd (fetchone self))
           = index self + (if index self < int (length R) then 1 else 0)"
    using assms by (simp add: fetchone_list)
  show "\<exists>rows. fst (fetchmany self (Some k)) = Inr (PyList rows)
           \<and> index (snd (fetchmany self (Some k))) = index self + int (length rows)"
    if k: "0 \<le> k"
    using fetchmany_list [OF assms k] assms(2,3) k by (simp add: min_def) linarith
  show "\<exists>rows. fst (fetchmany self None) = Inr (PyList rows)
           \<and> index (snd (fetchmany self None)) = index self + int (length rows)"
    using fetchmany_default_list [OF assms] assms(2,3) by simp
  show "\<exists>rows. fst (fetchall self) = Inr (PyList rows)
           \<and> index (snd (fetchall self)) = index self + int (length rows)"
    using fetchall_list [OF assms(1,2)] assms(2,3) by simp
qed

text \<open>
  Claim C3 (for every sequence of calls, \<open>fetchmany\<close> with any integer size among them,
  the position stays within \<open>0 .. len(rows)\<close>, never decreases, and each fetch advances
  it by the number of rows returned). \<open>fetchmany\<close> bounds the end of its slice by
  \<open>len(rows)\<close> from above and by nothing from below, and stores that end as the new
  position. On the two sample rows, after one \<open>fetchone()\<close> the position is 1;
  \<open>fetchmany(-2)\<close> then returns no row and moves the position back to -1. On a wrapper
  with no rows and position -1, as \<open>fetchmany(-1)\<close> leaves it, \<open>fetchone()\<close> raises
  IndexError.
\<close>

theorem fetchmany_negative_size_position:
  "index (cursor_calls [Fetchone] example_result) = 1
   \<and> cursor_call (Fetchmany (Some (- 2))) (cursor_calls [Fetchone] example_result)
       = (Inr (PyList []), example_result\<lparr>index := - 1\<rparr>)
   \<and> index (cursor_calls [Fetchone, Fetchmany (Some (- 2))] example_result) = - 1
   \<and> fetchone (CloudflareD1Result (PyList []) (PyDict []) (PyBool True)\<lparr>index := - 1\<rparr>)
       = (Inl IndexError, CloudflareD1Result (PyList []) (PyDict []) (PyBool True)\<lparr>index := - 1\<rparr>)"
  by (simp add: example_result_def example_rows_def CloudflareD1Result_def fetchone_def
        fetchmany_def seq_getitem_def seq_slice_def slice_bound_def Let_def)

text \<open>
  Claim C4 (\<open>fetchmany(size)\<close> with \<open>size \<le> 0\<close> returns an empty sequence and leaves the
  position unchanged). With size 0 it does; with a negative size the end of the slice is
  negative and Python reads it from the end of the rows: on the two sample rows at
  position 0, \<open>fetchmany(-1)\<close> returns the first row and sets the position to -1.
\<close>

theorem fetchmany_negative_size_rows:
  "fetchmany example_result (Some (- 1))
     = (Inr (PyList [PyDict [(''id'', PyInt 1), (''name'', PyStr ''a'')]]),
        example_result\<lparr>index := - 1\<rparr>)
   \<and> index example_result = 0"
  by (simp add: example_result_def example_rows_def CloudflareD1Result_def
        fetchmany_def seq_slice_def slice_bound_def Let_def)

lemma fetchmany_zero_size:
  assumes "results self = PyList R" and "index self \<le> int (length R)"
  shows "fetchmany self (Some 0) = (Inr (PyList []), self)"
  using assms by (auto simp add: fetchmany_def seq_slice_def slice_bound_def Let_def min_def)

subsection \<open>Column descriptions\<close>

text \<open>
  Claim C9 as stated (each descriptor is the column name followed by five placeholder
  fields) does not hold: a descriptor is a tuple of seven components, the name followed by
  six \<open>None\<close>.
\<close>

theorem description_five_placeholders_counterexample:
  "description example_result
     = Inr (PyList [PyTuple [PyStr ''id'', PyNone, PyNone, PyNone, PyNone, PyNone, PyNone],
                    PyTuple [PyStr ''name'', PyNone, PyNone, PyNone, PyNone, PyNone, PyNone]])
   \<and> description example_result
     \<noteq> Inr (PyList [PyTuple [PyStr ''id'', PyNone, PyNone, PyNone, PyNone, PyNone],
                    PyTuple [PyStr ''name'', PyNone, PyNone, PyNone, PyNone, PyNone]])"
  by (simp add: description_def example_result_def example_rows_def CloudflareD1Result_def
        seq_getitem_def)

text \<open>
  Claim C9, amended. If the rows are a non-empty list whose first row is a dictionary,
  \<open>description\<close> is a list with exactly one descriptor per key of the first row, in key
  order, each descriptor the column name followed by six \<open>None\<close> placeholders; if the
  list of rows is empty, \<open>description\<close> is \<open>None\<close>.
\<close>

theorem description_six_placeholders:
  "description \<lparr>results = PyList (PyDict row # rest), meta = m, success = s, index = i\<rparr>
     = Inr (PyList (map (\<lambda>name. PyTuple [PyStr name, PyNone, PyNone, PyNone,
                                            PyNone, PyNone, PyNone])
                        (map fst row)))
   \<and> description \<lparr>results = PyList [], meta = m, success = s, index = i\<rparr> = Inr PyNone"
  by (simp add: description_def seq_getitem_def)


section \<open>Properties of a closed connection\<close>

text \<open>
  Once \<open>_closed\<close> is set no method clears it, and no method of a closed connection
  reaches the client.
\<close>

lemma execute_closed:
  "closed self \<Longrightarrow>
     execute env self log query parameters = (Inl (RuntimeError ''Connection is closed''), log)"
  by (simp add: execute_def)

lemma execute_many_closed:
  "closed self \<Longrightarrow>
     execute_many env self log query (parameters # rest)
       = (Inl (RuntimeError ''Connection is closed''), log)"
  by (simp add: execute_closed)

lemma closed_close: "closed (fst (close self log))"
  by (simp add: close_def)

lemma call_closed:
  assumes "closed self"
  shows "closed (fst (snd (call env c (self, log)))) \<and> snd (snd (call env c (self, log))) = log"
proof (cases c)
  case (ExecuteMany query ps)
  then show ?thesis using assms
    by (cases ps) (simp_all add: execute_closed)
qed (use assms in \<open>simp_all add: close_def execute_closed begin_transaction_def
      commit_transaction_def rollback_transaction_def\<close>)

lemma calls_closed:
  "closed (fst st) \<Longrightarrow> closed (fst (calls env cs st)) \<and> snd (calls env cs st) = snd st"
proof (induction cs arbitrary: st)
  case Nil
  then show ?case by simp
next
  case (Cons c cs)
  obtain self log where st: "st = (self, log)" by (cases st)
  with Cons.prems have cl: "closed self" by simp
  from call_closed [OF cl, of env c log]
  have 1: "closed (fst (snd (call env c st)))" and 2: "snd (snd (call env c st)) = snd st"
    using st by simp_all
  from Cons.IH [OF 1] 2 show ?case by simp
qed

text \<open>
  Claim C7. After \<open>close()\<close>, and after any further calls on the connection, every
  \<open>execute(sql, parameters)\<close> raises the RuntimeError "Connection is closed" (the
  closed-channel error) and makes no call on the client: the client's call sequence is
  still the one \<open>close()\<close> left, which holds no \<open>post\<close> that was not there before.
\<close>

theorem execute_after_close:
  "execute env (fst (calls env cs (close self log))) (snd (calls env cs (close self log)))
       query parameters
     = (Inl (RuntimeError ''Connection is closed''), snd (close self log))
   \<and> snd (close self log) = (if closed self then log else log @ [ClientClose])"
proof -
  have "closed (fst (close self log))" by (rule closed_close)
  from calls_closed [OF this, of env cs]
  have "closed (fst (calls env cs (close self log)))"
    and "snd (calls env cs (close self log)) = snd (close self log)" by simp_all
  then show ?thesis by (simp add: execute_closed close_def)
qed

text \<open>
  Claim C8 as stated (after \<open>close()\<close> every method of the connection fails with the
  closed-channel error) does not hold: on a closed connection \<open>get_server_version\<close>,
  \<open>begin_transaction\<close>, \<open>commit_transaction\<close>, \<open>rollback_transaction\<close> and
  \<open>execute_many\<close> with no parameter sets all return normally.
\<close>

theorem closed_connection_calls_counterexample:
  "closed (fst (close example_conn []))
   \<and> fst (call (example_runtime PyNone) GetServerVersion (close example_conn []))
       = Inr (RetStr ''D1-REST-API'')
   \<and> fst (call (example_runtime PyNone) BeginTransaction (close example_conn [])) = Inr RetNone
   \<and> fst (call (example_runtime PyNone) CommitTransaction (close example_conn [])) = Inr RetNone
   \<and> fst (call (example_runtime PyNone) RollbackTransaction (close example_conn [])) = Inr RetNone
   \<and> fst (call (example_runtime PyNone) (ExecuteMany ''SELECT 1'' []) (close example_conn []))
       = Inr (RetResults [])"
  by (simp add: close_def example_conn_def CloudflareD1Connection_def get_server_version_def)

text \<open>
  Claim C8, amended. On a closed connection \<open>execute\<close> raises the closed-channel error,
  and so does \<open>execute_many\<close> when it is given at least one parameter set;
  \<open>execute_many\<close> with no parameter set returns the empty list;
  \<open>begin_transaction\<close>, \<open>commit_transaction\<close> and \<open>rollback_transaction\<close> return
  normally and only set the transaction flag; \<open>get_server_version\<close> returns the constant
  "D1-REST-API". None of them makes a call on the client.
\<close>

theorem calls_on_closed_connection:
  assumes "closed self"
  shows "call env (Execute query parameters) (self, log)
           = (Inl (RuntimeError ''Connection is closed''), self, log)
       \<and> call env (ExecuteMany query (parameters' # rest)) (self, log)
           = (Inl (RuntimeError ''Connection is closed''), self, log)
       \<and> call env (ExecuteMany query []) (self, log) = (Inr (RetResults []), self, log)
       \<and> call env BeginTransaction (self, log)
           = (Inr RetNone, self\<lparr>in_transaction := True\<rparr>, log)
       \<and> call env CommitTransaction (self, log)
           = (Inr RetNone, self\<lparr>in_transaction := False\<rparr>, log)
       \<and> call env RollbackTransaction (self, log)
           = (Inr RetNone, self\<lparr>in_transaction := False\<rparr>, log)
       \<and> call env GetServerVersion (self, log) = (Inr (RetStr ''D1-REST-API''), self, log)"
  using assms
  by (simp add: execute_closed begin_transaction_def commit_transaction_def
        rollback_transaction_def get_server_version_def)

theorem calls_on_closed_connection_witness:
  "closed (fst (close example_conn []))
   \<and> call (example_runtime PyNone) (Execute ''SELECT 1'' None) (close example_conn [])
       = (Inl (RuntimeError ''Connection is closed''), close example_conn [])
   \<and> call (example_runtime PyNone) GetServerVersion (close example_conn [])
       = (Inr (RetStr ''D1-REST-API''), close example_conn [])"
proof -
  have h: "closed (fst (close example_conn []))" by (simp add: close_def)
  have e: "close example_conn [] = (fst (close example_conn []), [ClientClose])"
    by (simp add: close_def example_conn_def CloudflareD1Connection_def)
  show ?thesis
    using h calls_on_closed_connection [OF h, of "example_runtime PyNone" "''SELECT 1''" None "[ClientClose]"]
    by (simp add: e [symmetric])
qed


section \<open>Properties of execute\<close>

text \<open>
  Claim C1. On an open connection, when the client answers with a 2xx response whose
  body parses to an envelope with \<open>success\<close> true: if the envelope's \<open>result\<close> is a
  non-empty list whose first element is a result block (a JSON object), \<open>execute\<close>
  returns a result wrapper at position 0 built from the block's \<open>results\<close>, \<open>meta\<close> and
  \<open>success\<close> fields, with \<open>[]\<close>, \<open>{}\<close> and \<open>True\<close> for a field the block omits; if
  \<open>result\<close> is the empty list, it returns a wrapper with no rows, empty metadata and
  \<open>success\<close> true, whose \<open>rowcount\<close> is 0 and whose \<open>lastrowid\<close> is \<open>None\<close>.
\<close>

theorem execute_success_envelope:
  assumes "\<not> closed self"
    and "\<And>url payload. post env log url payload = Response r"
    and "is_success r"
    and "resp_json r = Some (PyDict envelope)"
    and "map_of envelope ''success'' = Some (PyBool True)"
  shows "(map_of envelope ''result'' = Some (PyList (PyDict block # rest)) \<longrightarrow>
            fst (execute env self log query parameters)
              = Inr \<lparr>results = (case map_of block ''results'' of None \<Rightarrow> PyList [] | Some v \<Rightarrow> v),
                     meta = (case map_of block ''meta'' of None \<Rightarrow> PyDict [] | Some v \<Rightarrow> v),
                     success = (case map_of block ''success'' of None \<Rightarrow> PyBool True | Some v \<Rightarrow> v),
                     index = 0\<rparr>)
       \<and> (map_of envelope ''result'' = Some (PyList []) \<longrightarrow>
            fst (execute env self log query parameters)
              = Inr \<lparr>results = PyList [], meta = PyDict [], success = PyBool True, index = 0\<rparr>
          \<and> rowcount \<lparr>results = PyList [], meta = PyDict [], success = PyBool True, index = 0\<rparr>
              = Inr (PyInt 0)
          \<and> lastrowid \<lparr>results = PyList [], meta = PyDict [], success = PyBool True, index = 0\<rparr>
              = Inr PyNone)"
  using assms
  by (simp add: execute_def Let_def CloudflareD1Result_def seq_getitem_def rowcount_def
        lastrowid_def)

theorem execute_success_envelope_witness:
  "fst (execute (example_runtime success_body) example_conn [] ''SELECT 1'' None)
     = Inr \<lparr>results = PyList example_rows,
            meta = PyDict [(''changes'', PyInt 2), (''last_row_id'', PyInt 2)],
            success = PyBool True, index = 0\<rparr>
   \<and> fst (execute (example_runtime empty_body) example_conn [] ''SELECT 1'' None)
     = Inr \<lparr>results = PyList [], meta = PyDict [], success = PyBool True, index = 0\<rparr>"
proof -
  let ?r = "\<lambda>b. \<lparr>status_code = 200, resp_text = [], resp_json = Some b\<rparr>"
  have open_conn: "\<not> closed example_conn"
    by (simp add: example_conn_def CloudflareD1Connection_def)
  have ok: "is_success (?r b)" for b by (simp add: is_success_def)
  have p: "post (example_runtime b) [] url payload = Response (?r b)" for b url payload
    by (simp add: example_runtime_def)
  let ?block = "[(''results'', PyList example_rows),
                 (''meta'', PyDict [(''changes'', PyInt 2), (''last_row_id'', PyInt 2)])]"
  have j1: "resp_json (?r success_body)
              = Some (PyDict [(''success'', PyBool True), (''result'', PyList [PyDict ?block])])"
    by (simp add: success_body_def)
  have j2: "resp_json (?r empty_body)
              = Some (PyDict [(''success'', PyBool True), (''result'', PyList [])])"
    by (simp add: empty_body_def)
  have s1: "map_of [(''success'', PyBool True), (''result'', PyList [PyDict ?block])] ''success''
              = Some (PyBool True)" by simp
  have s2: "map_of [(''success'', PyBool True), (''result'', PyList [])] ''success''
              = Some (PyBool True)" by simp
  show ?thesis
    using execute_success_envelope [OF open_conn p ok j1 s1, of ?block "[]" "''SELECT 1''" None]
          execute_success_envelope [OF open_conn p ok j2 s2, of ?block "[]" "''SELECT 1''" None]
    by simp
qed

text \<open>
  Claim C2. On an open connection, when the client answers with a 2xx response whose
  body parses to an envelope with \<open>success\<close> false, \<open>execute\<close> returns no result wrapper:
  it raises a RuntimeError whose message is "D1 API error: " followed by the message of
  the first entry of \<open>errors\<close> when \<open>errors\<close> is a non-empty list, and the RuntimeError
  "D1 API request failed" when \<open>errors\<close> is empty or absent.
\<close>

theorem execute_failure_envelope:
  assumes "\<not> closed self"
    and "\<And>url payload. post env log url payload = Response r"
    and "is_success r"
    and "resp_json r = Some (PyDict envelope)"
    and "map_of envelope ''success'' = Some (PyBool False)"
  shows "(map_of envelope ''errors'' = Some (PyList (PyDict err # rest))
            \<and> map_of err ''message'' = Some (PyStr msg) \<longrightarrow>
            fst (execute env self log query parameters)
              = Inl (RuntimeError (''D1 API error: '' @ msg)))
       \<and> (map_of envelope ''errors'' = Some (PyList []) \<longrightarrow>
            fst (execute env self log query parameters)
              = Inl (RuntimeError ''D1 API request failed''))
       \<and> (map_of envelope ''errors'' = None \<longrightarrow>
            fst (execute env self log query parameters)
              = Inl (RuntimeError ''D1 API request failed''))"
  using assms
  by (simp add: execute_def Let_def seq_getitem_def)

theorem execute_failure_envelope_witness:
  "fst (execute (example_runtime error_body) example_conn [] ''SELECT 1'' None)
     = Inl (RuntimeError ''D1 API error: syntax error'')
   \<and> fst (execute (example_runtime failed_body) example_conn [] ''SELECT 1'' None)
     = Inl (RuntimeError ''D1 API request failed'')
   \<and> fst (execute (example_runtime (PyDict [(''success'', PyBool False)])) example_conn []
            ''SELECT 1'' None)
     = Inl (RuntimeError ''D1 API request failed'')"
proof -
  let ?r = "\<lambda>b. \<lparr>status_code = 200, resp_text = [], resp_json = Some b\<rparr>"
  have open_conn: "\<not> closed example_conn"
    by (simp add: example_conn_def CloudflareD1Connection_def)
  have ok: "is_success (?r b)" for b by (simp add: is_success_def)
  have p: "post (example_runtime b) [] url payload = Response (?r b)" for b url payload
    by (simp add: example_runtime_def)
  let ?err = "[(''message'', PyStr ''syntax error'')]"
  have j1: "resp_json (?r error_body)
              = Some (PyDict [(''success'', PyBool False), (''errors'', PyList [PyDict ?err])])"
    by (simp add: error_body_def)
  have j2: "resp_json (?r failed_body)
              = Some (PyDict [(''success'', PyBool False), (''errors'', PyList [])])"
    by (simp add: failed_body_def)
  have j3: "resp_json (?r (PyDict [(''success'', PyBool False)]))
              = Some (PyDict [(''success'', PyBool False)])"
    by simp
  have s1: "map_of [(''success'', PyBool False), (''errors'', PyList [PyDict ?err])] ''success''
              = Some (PyBool False)" by simp
  have s2: "map_of [(''success'', PyBool False), (''errors'', PyList [])] ''success''
              = Some (PyBool False)" by simp
  have s3: "map_of [(''success'', PyBool False)] ''success'' = Some (PyBool False)" by simp
  show ?thesis
    using execute_failure_envelope [OF open_conn p ok j1 s1, of ?err "[]" "''syntax error''" "''SELECT 1''" None]
          execute_failure_envelope [OF open_conn p ok j2 s2, of ?err "[]" "''syntax error''" "''SELECT 1''" None]
          execute_failure_envelope [OF open_conn p ok j3 s3, of ?err "[]" "''syntax error''" "''SELECT 1''" None]
    by simp
qed

end
